theory Spec2Isabelle
  imports Main "HOL-Library.Word" "HOL-Library.Sublist"
begin

section \<open>Stock control: the reconciliation session of the IMEI scanner\<close>

text \<open>
  The development embeds the session logic of the two stock-control pages:
  \<^item> \<^verbatim>\<open>client/src/pages/stock-control-final.tsx\<close> (component \<^verbatim>\<open>StockControlFinal\<close>):
    \<^verbatim>\<open>startScanningSession\<close>, \<^verbatim>\<open>handleScan\<close>, \<^verbatim>\<open>finalizeScanningSession\<close>,
    \<^verbatim>\<open>handleMarkAsLost\<close> and the derived \<^verbatim>\<open>dynamicStats\<close>;
  \<^item> the older page \<^verbatim>\<open>StockControlPage\<close> with \<^verbatim>\<open>handleImeiScan\<close>.

  The React component state (the \<^verbatim>\<open>useState\<close> cells) is a record that every handler
  takes and returns. The product list of the query (\<^verbatim>\<open>productArray\<close>) and the clock
  (\<^verbatim>\<open>new Date()\<close>) are parameters of the handlers. Calls of \<^verbatim>\<open>toast\<close> are
  recorded, oldest first, in the field \<open>toasts\<close> of the state.
\<close>

subsection \<open>Strings\<close>

text \<open>
  A JavaScript string is a sequence of UTF-16 code units. \<^verbatim>\<open>String.prototype.trim\<close>
  removes the code units of ECMAScript's \<^verbatim>\<open>WhiteSpace\<close> and \<^verbatim>\<open>LineTerminator\<close>
  productions from both ends.
\<close>

type_synonym jsstring = "16 word list"

definition isWhiteSpace :: "16 word \<Rightarrow> bool" where
  "isWhiteSpace c \<longleftrightarrow>
     c = 0x0009 \<or> c = 0x000A \<or> c = 0x000B \<or> c = 0x000C \<or> c = 0x000D \<or> c = 0x0020 \<or>
     c = 0x00A0 \<or> c = 0x1680 \<or> (0x2000 \<le> c \<and> c \<le> 0x200A) \<or> c = 0x2028 \<or>
     c = 0x2029 \<or> c = 0x202F \<or> c = 0x205F \<or> c = 0x3000 \<or> c = 0xFEFF"

definition trim :: "jsstring \<Rightarrow> jsstring" where
  "trim s = rev (dropWhile isWhiteSpace (rev (dropWhile isWhiteSpace s)))"

subsection \<open>Data of \<^verbatim>\<open>stock-control-final.tsx\<close>\<close>

datatype Status =
  Disponible | Reservado | Vendido | Tecnico_interno | Tecnico_externo | A_reparar | Extravio

text \<open>
  \<^verbatim>\<open>interface Product\<close>. The prices, the observations and the dates are never read by
  the session logic and are left out of the record.
\<close>

record Product =
  product_id :: int
  clientId :: int
  imei :: jsstring
  model :: jsstring
  storage :: jsstring
  color :: jsstring
  status :: Status

datatype ScanStatus = Found | Not_found

text \<open>\<^verbatim>\<open>interface ScannedItem\<close>; the optional \<^verbatim>\<open>product\<close> is an option.\<close>

record ScannedItem =
  item_imei :: jsstring
  product :: "Product option"
  timestamp :: int
  item_status :: ScanStatus

text \<open>The cell \<^verbatim>\<open>sessionStartCounts\<close>.\<close>

record StartCounts =
  disponible :: nat
  reservado :: nat
  tecnico_interno :: nat
  total :: nat

text \<open>One constructor for each call of \<^verbatim>\<open>toast\<close>, with the values its text shows.\<close>

datatype toast =
    ControlDeStockIniciado nat nat nat nat
  | ControlCompletadoPerfecto nat
  | ProductosFaltantesDetectados nat
  | ControlIncompleto nat nat
  | EstadoActualizado jsstring
  | ErrorAlActualizar "jsstring option"
  | NoSePudoActualizar
  | ProductoNoValido Status
  | ProductoVerificado jsstring jsstring Status
  | ImeiNoEncontrado jsstring
  | ImeiYaEscaneado
  | ImeiEscaneado jsstring
  | ImeiDuplicado jsstring

record state =
  isScanning :: bool
  imeiInput :: jsstring
  scannedItems :: "ScannedItem list"
  sessionStartCounts :: StartCounts
  missingProducts :: "Product list"
  toasts :: "toast list"

subsection \<open>The derived statistics\<close>

text \<open>The fields of \<^verbatim>\<open>stats\<close> that the session reads.\<close>

definition stats_total :: "Product list \<Rightarrow> nat" where
  "stats_total productArray = length productArray"

definition stats_disponible :: "Product list \<Rightarrow> nat" where
  "stats_disponible productArray = length (filter (\<lambda>p. status p = Disponible) productArray)"

definition stats_reservado :: "Product list \<Rightarrow> nat" where
  "stats_reservado productArray = length (filter (\<lambda>p. status p = Reservado) productArray)"

definition stats_tecnico_interno :: "Product list \<Rightarrow> nat" where
  "stats_tecnico_interno productArray =
     length (filter (\<lambda>p. status p = Tecnico_interno) productArray)"

definition scannedIMEIs :: "state \<Rightarrow> jsstring list" where
  "scannedIMEIs s = map item_imei (scannedItems s)"

definition scannedProducts :: "Product list \<Rightarrow> state \<Rightarrow> Product list" where
  "scannedProducts productArray s =
     filter (\<lambda>p. imei p \<in> set (scannedIMEIs s)) productArray"

text \<open>
  \<^verbatim>\<open>dynamicStats\<close>. JavaScript numbers subtract below zero, so the derived counters
  are integers.
\<close>

record DynamicStats =
  dyn_disponible :: int
  dyn_reservado :: int
  dyn_tecnico_interno :: int
  scannedCount :: nat
  expectedTotal :: nat
  pendingToScan :: int

definition dynamicStats :: "Product list \<Rightarrow> state \<Rightarrow> DynamicStats" where
  "dynamicStats productArray s =
     \<lparr> dyn_disponible = int (stats_disponible productArray)
          - int (length (filter (\<lambda>p. status p = Disponible) (scannedProducts productArray s))),
       dyn_reservado = int (stats_reservado productArray)
          - int (length (filter (\<lambda>p. status p = Reservado) (scannedProducts productArray s))),
       dyn_tecnico_interno = int (stats_tecnico_interno productArray)
          - int (length (filter (\<lambda>p. status p = Tecnico_interno)
                           (scannedProducts productArray s))),
       scannedCount = length (scannedItems s),
       expectedTotal = (if total (sessionStartCounts s) > 0 then total (sessionStartCounts s)
                        else stats_total productArray),
       pendingToScan = (if total (sessionStartCounts s) > 0
                        then int (total (sessionStartCounts s)) - int (length (scannedItems s))
                        else 0) \<rparr>"

subsection \<open>Starting and finalizing a session\<close>

text \<open>
  The filter that \<^verbatim>\<open>startScanningSession\<close>, \<^verbatim>\<open>finalizeScanningSession\<close> and
  \<^verbatim>\<open>handleScan\<close> each write out: the three statuses that are verified physically.
\<close>

definition scannable :: "Status \<Rightarrow> bool" where
  "scannable st \<longleftrightarrow> st = Disponible \<or> st = Reservado \<or> st = Tecnico_interno"

text \<open>\<^verbatim>\<open>startScanningSession\<close>; the delayed focus of the input field is not modelled.\<close>

definition startScanningSession :: "Product list \<Rightarrow> state \<Rightarrow> state" where
  "startScanningSession productArray s =
     (let scannableProducts = filter (\<lambda>p. scannable (status p)) productArray
      in s\<lparr> sessionStartCounts :=
              \<lparr> disponible = length (filter (\<lambda>p. status p = Disponible) productArray),
                reservado = length (filter (\<lambda>p. status p = Reservado) productArray),
                tecnico_interno = length (filter (\<lambda>p. status p = Tecnico_interno) productArray),
                total = length scannableProducts \<rparr>,
            scannedItems := [],
            missingProducts := [],
            isScanning := True,
            toasts := toasts s @
              [ControlDeStockIniciado (length scannableProducts) (stats_disponible productArray)
                 (stats_reservado productArray) (stats_tecnico_interno productArray)] \<rparr>)"

text \<open>\<^verbatim>\<open>finalizeScanningSession\<close>.\<close>

definition finalizeScanningSession :: "Product list \<Rightarrow> state \<Rightarrow> state" where
  "finalizeScanningSession productArray s =
     (let scannedCount = length (scannedItems s);
          expectedCount = total (sessionStartCounts s);
          expectedProducts = filter (\<lambda>p. scannable (status p)) productArray;
          scannedIMEIs = map item_imei (scannedItems s);
          notScannedProducts = filter (\<lambda>p. imei p \<notin> set scannedIMEIs) expectedProducts
      in s\<lparr> isScanning := False,
            missingProducts := notScannedProducts,
            toasts := toasts s @
              [if scannedCount = expectedCount \<and> length notScannedProducts = 0
               then ControlCompletadoPerfecto scannedCount
               else if length notScannedProducts > 0
               then ProductosFaltantesDetectados (length notScannedProducts)
               else ControlIncompleto scannedCount expectedCount] \<rparr>)"

subsection \<open>Scanning\<close>

text \<open>
  The two lookups at the head of \<^verbatim>\<open>handleScan\<close>: \<^verbatim>\<open>Array.prototype.find\<close>
  returns the first element that matches, or \<^verbatim>\<open>undefined\<close>.
\<close>

definition existingProduct :: "Product list \<Rightarrow> jsstring \<Rightarrow> Product option" where
  "existingProduct productArray t = find (\<lambda>p. imei p = t) productArray"

definition alreadyScanned :: "ScannedItem list \<Rightarrow> jsstring \<Rightarrow> ScannedItem option" where
  "alreadyScanned items t = find (\<lambda>item. item_imei item = t) items"

text \<open>
  \<^verbatim>\<open>handleScan\<close>. The handler reads \<^verbatim>\<open>imeiInput\<close> from the state; an accepted item
  is put in front of the list (\<^verbatim>\<open>[newItem, ...prev]\<close>).
\<close>

definition handleScan :: "Product list \<Rightarrow> int \<Rightarrow> state \<Rightarrow> state" where
  "handleScan productArray now s =
     (if trim (imeiInput s) \<noteq> [] then
        (case existingProduct productArray (trim (imeiInput s)) of
           Some p \<Rightarrow>
             if status p \<noteq> Disponible \<and> status p \<noteq> Reservado \<and> status p \<noteq> Tecnico_interno
             then s\<lparr> toasts := toasts s @ [ProductoNoValido (status p)], imeiInput := [] \<rparr>
             else if alreadyScanned (scannedItems s) (trim (imeiInput s)) = None
             then s\<lparr> scannedItems :=
                       \<lparr> item_imei = trim (imeiInput s), product = Some p,
                         timestamp = now, item_status = Found \<rparr> # scannedItems s,
                     toasts := toasts s @ [ProductoVerificado (model p) (color p) (status p)],
                     imeiInput := [] \<rparr>
             else s\<lparr> toasts := toasts s @ [ImeiYaEscaneado], imeiInput := [] \<rparr>
         | None \<Rightarrow>
             if alreadyScanned (scannedItems s) (trim (imeiInput s)) = None
             then s\<lparr> scannedItems :=
                       \<lparr> item_imei = trim (imeiInput s), product = None,
                         timestamp = now, item_status = Not_found \<rparr> # scannedItems s,
                     toasts := toasts s @ [ImeiNoEncontrado (trim (imeiInput s))],
                     imeiInput := [] \<rparr>
             else s\<lparr> toasts := toasts s @ [ImeiYaEscaneado], imeiInput := [] \<rparr>)
      else s)"

text \<open>
  One scan by the operator: the input field's \<^verbatim>\<open>onChange\<close> stores the text
  (\<^verbatim>\<open>setImeiInput\<close>), then the form's \<^verbatim>\<open>onSubmit\<close> runs \<^verbatim>\<open>handleScan\<close>.
\<close>

definition scan :: "Product list \<Rightarrow> int \<Rightarrow> jsstring \<Rightarrow> state \<Rightarrow> state" where
  "scan productArray now input s = handleScan productArray now (s\<lparr> imeiInput := input \<rparr>)"

text \<open>A sequence of scans, each with its text and the time it is submitted at.\<close>

fun scans :: "Product list \<Rightarrow> (jsstring \<times> int) list \<Rightarrow> state \<Rightarrow> state" where
  "scans productArray [] s = s"
| "scans productArray ((input, now) # rest) s = scans productArray rest (scan productArray now input s)"

subsection \<open>Marking a missing product as lost\<close>

text \<open>
  \<^verbatim>\<open>handleMarkAsLost\<close> sends \<^verbatim>\<open>PATCH /api/products/:id\<close> with the new status
  and continues when the request settles. The server is a parameter of the handler: a
  function from the request to what comes back, with the later refetch:
  \<^item> \<open>ResponseOk refetched\<close>: \<^verbatim>\<open>response.ok\<close>; \<open>refetched\<close> is false when
    \<^verbatim>\<open>invalidateQueries\<close> or \<^verbatim>\<open>refetch\<close> throws afterwards;
  \<^item> \<open>ResponseNotOk msg\<close>: the server refused, \<open>msg\<close> is the \<^verbatim>\<open>message\<close> of the
    error body when it has one;
  \<^item> \<open>RequestThrew\<close>: \<^verbatim>\<open>fetch\<close> or \<^verbatim>\<open>response.json()\<close> threw.

  Of the request, the identifier in the path and the status of the body are modelled; the
  note and the user's identifier are not.
\<close>

record PatchRequest =
  patch_id :: int
  patch_status :: Status

datatype PatchOutcome = ResponseOk bool | ResponseNotOk "jsstring option" | RequestThrew

definition handleMarkAsLost :: "(PatchRequest \<Rightarrow> PatchOutcome) \<Rightarrow> Product \<Rightarrow> state \<Rightarrow> state" where
  "handleMarkAsLost fetch p s =
     (case fetch \<lparr> patch_id = product_id p, patch_status = Extravio \<rparr> of
        ResponseOk refetched \<Rightarrow>
          (let s' = s\<lparr> missingProducts :=
                         filter (\<lambda>q. product_id q \<noteq> product_id p) (missingProducts s) \<rparr>
           in if refetched
              then s'\<lparr> toasts := toasts s' @ [EstadoActualizado (model p)] \<rparr>
              else s'\<lparr> toasts := toasts s' @ [NoSePudoActualizar] \<rparr>)
      | ResponseNotOk msg \<Rightarrow> s\<lparr> toasts := toasts s @ [ErrorAlActualizar msg] \<rparr>
      | RequestThrew \<Rightarrow> s\<lparr> toasts := toasts s @ [NoSePudoActualizar] \<rparr>)"

subsection \<open>The older page: \<^verbatim>\<open>handleImeiScan\<close>\<close>

text \<open>
  \<^verbatim>\<open>StockControlPage\<close> keeps the scanned IMEIs as plain strings and puts an accepted
  one at the end (\<^verbatim>\<open>[...prev, imei]\<close>). The handler runs on every key press and acts
  on \<^verbatim>\<open>Enter\<close> only.
\<close>

datatype Key = Enter | OtherKey jsstring

record page_state =
  page_isScanning :: bool
  page_imeiInput :: jsstring
  page_scannedItems :: "jsstring list"
  page_toasts :: "toast list"

definition handleImeiScan :: "Key \<Rightarrow> page_state \<Rightarrow> page_state" where
  "handleImeiScan key s =
     (if key = Enter \<and> trim (page_imeiInput s) \<noteq> [] then
        (let imei = trim (page_imeiInput s)
         in if imei \<notin> set (page_scannedItems s)
            then s\<lparr> page_scannedItems := page_scannedItems s @ [imei],
                    page_toasts := page_toasts s @ [ImeiEscaneado imei],
                    page_imeiInput := [] \<rparr>
            else s\<lparr> page_toasts := page_toasts s @ [ImeiDuplicado imei],
                    page_imeiInput := [] \<rparr>)
      else s)"

definition page_scan :: "jsstring \<Rightarrow> page_state \<Rightarrow> page_state" where
  "page_scan input s = handleImeiScan Enter (s\<lparr> page_imeiInput := input \<rparr>)"

subsection \<open>The component when it mounts, and sample data\<close>

text \<open>The initial values of the \<^verbatim>\<open>useState\<close> cells of \<^verbatim>\<open>StockControlFinal\<close>.\<close>

definition initial_state :: state where
  "initial_state =
     \<lparr> isScanning = False, imeiInput = [], scannedItems = [],
       sessionStartCounts = \<lparr> disponible = 0, reservado = 0, tecnico_interno = 0, total = 0 \<rparr>,
       missingProducts = [], toasts = [] \<rparr>"

text \<open>The initial values of the cells of \<^verbatim>\<open>StockControlPage\<close>.\<close>

definition page_initial_state :: page_state where
  "page_initial_state =
     \<lparr> page_isScanning = False, page_imeiInput = [], page_scannedItems = [], page_toasts = [] \<rparr>"

text \<open>A product with the given identifier, IMEI and status, for the worked examples.\<close>

definition sample_product :: "int \<Rightarrow> jsstring \<Rightarrow> Status \<Rightarrow> Product" where
  "sample_product i im st =
     \<lparr> product_id = i, clientId = 1, imei = im, model = [0x58], storage = [], color = [],
       status = st \<rparr>"

text \<open>
  A snapshot of three products: IMEI \<open>A\<close> available, IMEI \<open>B\<close> reserved and
  IMEI \<open>C\<close> sold.
\<close>

definition sample_products :: "Product list" where
  "sample_products =
     [sample_product 1 [0x41] Disponible, sample_product 2 [0x42] Reservado,
      sample_product 3 [0x43] Vendido]"

subsection \<open>The invariant of a session\<close>

text \<open>
  What holds of the state from \<^verbatim>\<open>startScanningSession\<close> on, as long as the handlers
  run over the snapshot the session was started with: no IMEI is in the log twice, every
  entry is bound to the record the lookup finds for its IMEI, and the baseline is the one
  counted from the snapshot.
\<close>

definition session_inv :: "Product list \<Rightarrow> state \<Rightarrow> bool" where
  "session_inv ps s \<longleftrightarrow>
     distinct (scannedIMEIs s)
   \<and> list_all (\<lambda>item. product item = existingProduct ps (item_imei item)) (scannedItems s)
   \<and> sessionStartCounts s =
       \<lparr> disponible = stats_disponible ps, reservado = stats_reservado ps,
         tecnico_interno = stats_tecnico_interno ps,
         total = length (filter (\<lambda>p. scannable (status p)) ps) \<rparr>"

section \<open>Properties of the session\<close>

subsection \<open>Auxiliary facts\<close>

lemma length_filter_scannable:
  "length (filter (\<lambda>p. scannable (status p)) ps) =
     length (filter (\<lambda>p. status p = Disponible) ps)
   + length (filter (\<lambda>p. status p = Reservado) ps)
   + length (filter (\<lambda>p. status p = Tecnico_interno) ps)"
  by (induction ps) (auto simp: scannable_def)

lemma alreadyScanned_None_iff:
  "alreadyScanned items t = None \<longleftrightarrow> t \<notin> set (map item_imei items)"
  by (auto simp: alreadyScanned_def find_None_iff)

lemma not_scannable_iff:
  "status p \<noteq> Disponible \<and> status p \<noteq> Reservado \<and> status p \<noteq> Tecnico_interno
     \<longleftrightarrow> \<not> scannable (status p)"
  by (simp add: scannable_def)

text \<open>The five ways through \<^verbatim>\<open>handleScan\<close>.\<close>

lemma handleScan_empty: "trim (imeiInput s) = [] \<Longrightarrow> handleScan ps now s = s"
  by (simp add: handleScan_def)

lemma handleScan_not_scannable:
  assumes "trim (imeiInput s) \<noteq> []"
    and "existingProduct ps (trim (imeiInput s)) = Some p"
    and "\<not> scannable (status p)"
  shows "handleScan ps now s =
           s\<lparr> toasts := toasts s @ [ProductoNoValido (status p)], imeiInput := [] \<rparr>"
  using assms by (simp add: handleScan_def not_scannable_iff)

lemma handleScan_found_new:
  assumes "trim (imeiInput s) \<noteq> []"
    and "existingProduct ps (trim (imeiInput s)) = Some p"
    and "scannable (status p)"
    and "trim (imeiInput s) \<notin> set (scannedIMEIs s)"
  shows "handleScan ps now s =
           s\<lparr> scannedItems := \<lparr> item_imei = trim (imeiInput s), product = Some p,
                                 timestamp = now, item_status = Found \<rparr> # scannedItems s,
              toasts := toasts s @ [ProductoVerificado (model p) (color p) (status p)],
              imeiInput := [] \<rparr>"
  using assms
  by (simp add: handleScan_def alreadyScanned_None_iff scannedIMEIs_def not_scannable_iff)

lemma handleScan_unknown_new:
  assumes "trim (imeiInput s) \<noteq> []"
    and "existingProduct ps (trim (imeiInput s)) = None"
    and "trim (imeiInput s) \<notin> set (scannedIMEIs s)"
  shows "handleScan ps now s =
           s\<lparr> scannedItems := \<lparr> item_imei = trim (imeiInput s), product = None,
                                 timestamp = now, item_status = Not_found \<rparr> # scannedItems s,
              toasts := toasts s @ [ImeiNoEncontrado (trim (imeiInput s))],
              imeiInput := [] \<rparr>"
  using assms
  by (simp add: handleScan_def alreadyScanned_None_iff scannedIMEIs_def)

lemma handleScan_duplicate:
  assumes "trim (imeiInput s) \<noteq> []"
    and "\<forall>p. existingProduct ps (trim (imeiInput s)) = Some p \<longrightarrow> scannable (status p)"
    and "trim (imeiInput s) \<in> set (scannedIMEIs s)"
  shows "handleScan ps now s = s\<lparr> toasts := toasts s @ [ImeiYaEscaneado], imeiInput := [] \<rparr>"
  using assms
  by (cases "existingProduct ps (trim (imeiInput s))")
     (auto simp: handleScan_def alreadyScanned_None_iff scannedIMEIs_def not_scannable_iff)

lemma handleScan_log_cases:
  "scannedItems (handleScan ps now s) = scannedItems s
   \<or> (\<exists>item. scannedItems (handleScan ps now s) = item # scannedItems s
         \<and> item_imei item = trim (imeiInput s) \<and> timestamp item = now
         \<and> product item = existingProduct ps (trim (imeiInput s))
         \<and> trim (imeiInput s) \<notin> set (scannedIMEIs s))"
  by (auto simp: handleScan_def alreadyScanned_None_iff scannedIMEIs_def split: option.splits)

text \<open>The two ways through \<^verbatim>\<open>handleImeiScan\<close> on \<^verbatim>\<open>Enter\<close> with a non-empty text.\<close>

lemma handleImeiScan_new:
  "trim (page_imeiInput q) \<noteq> [] \<Longrightarrow> trim (page_imeiInput q) \<notin> set (page_scannedItems q) \<Longrightarrow>
   handleImeiScan Enter q =
     q\<lparr> page_scannedItems := page_scannedItems q @ [trim (page_imeiInput q)],
        page_toasts := page_toasts q @ [ImeiEscaneado (trim (page_imeiInput q))],
        page_imeiInput := [] \<rparr>"
  by (simp add: handleImeiScan_def Let_def)

lemma handleImeiScan_duplicate:
  "trim (page_imeiInput q) \<noteq> [] \<Longrightarrow> trim (page_imeiInput q) \<in> set (page_scannedItems q) \<Longrightarrow>
   handleImeiScan Enter q =
     q\<lparr> page_toasts := page_toasts q @ [ImeiDuplicado (trim (page_imeiInput q))],
        page_imeiInput := [] \<rparr>"
  by (simp add: handleImeiScan_def Let_def)

lemma trim_whitespace_only: "list_all isWhiteSpace t \<Longrightarrow> trim t = []"
proof -
  assume "list_all isWhiteSpace t"
  then have d: "dropWhile isWhiteSpace t = []"
    by (simp add: list_all_iff)
  show ?thesis unfolding trim_def d by simp
qed

lemma scan_log_suffix: "suffix (scannedItems s) (scannedItems (scan ps now input s))"
  using handleScan_log_cases [of ps now "s\<lparr> imeiInput := input \<rparr>"]
  by (auto simp: scan_def suffix_Cons)

lemma scans_log_suffix: "suffix (scannedItems s) (scannedItems (scans ps inputs s))"
proof (induction inputs arbitrary: s)
  case Nil
  show ?case by simp
next
  case (Cons a inputs)
  obtain input now where a: "a = (input, now)" by (cases a)
  have "suffix (scannedItems s) (scannedItems (scan ps now input s))"
    by (rule scan_log_suffix)
  also have "suffix \<dots> (scannedItems (scans ps inputs (scan ps now input s)))"
    by (rule Cons.IH)
  finally show ?case by (simp add: a)
qed

lemma distinct_map_head: "distinct (map f (x # xs)) \<Longrightarrow> q \<in> set xs \<Longrightarrow> f q \<noteq> f x"
proof
  assume d: "distinct (map f (x # xs))" and q: "q \<in> set xs" and e: "f q = f x"
  from q have "f q \<in> set (map f xs)" by simp
  with e have "f x \<in> set (map f xs)" by simp
  with d show False by simp
qed

lemma filter_other_ids:
  "distinct (map product_id xs) \<Longrightarrow> p \<in> set xs \<Longrightarrow>
   filter (\<lambda>q. product_id q \<noteq> product_id p) xs = remove1 p xs"
proof (induction xs)
  case Nil
  then show ?case by simp
next
  case (Cons x xs)
  show ?case
  proof (cases "x = p")
    case True
    have "\<forall>q\<in>set xs. product_id q \<noteq> product_id p"
    proof
      fix q assume "q \<in> set xs"
      with Cons.prems(1) have "product_id q \<noteq> product_id x" by (rule distinct_map_head)
      with True show "product_id q \<noteq> product_id p" by simp
    qed
    then have "filter (\<lambda>q. product_id q \<noteq> product_id p) xs = xs"
      by (simp add: filter_id_conv)
    with True show ?thesis by simp
  next
    case False
    with Cons.prems have mem: "p \<in> set xs" by simp
    with Cons.prems have "product_id x \<noteq> product_id p"
      using distinct_map_head [of product_id x xs p] by simp
    with False mem Cons show ?thesis by simp
  qed
qed

text \<open>The invariant is established by the start and kept by every scan.\<close>

lemma session_inv_start: "session_inv ps (startScanningSession ps s)"
  by (simp add: session_inv_def startScanningSession_def Let_def scannedIMEIs_def
      stats_disponible_def stats_reservado_def stats_tecnico_interno_def)

lemma session_inv_handleScan: "session_inv ps s \<Longrightarrow> session_inv ps (handleScan ps now s)"
  by (auto simp: session_inv_def handleScan_def scannedIMEIs_def alreadyScanned_None_iff
      split: option.splits)

lemma session_inv_scan: "session_inv ps s \<Longrightarrow> session_inv ps (scan ps now input s)"
  unfolding scan_def
  by (rule session_inv_handleScan) (simp add: session_inv_def scannedIMEIs_def)

lemma session_inv_scans: "session_inv ps s \<Longrightarrow> session_inv ps (scans ps inputs s)"
  by (induction ps inputs s rule: scans.induct) (simp_all add: session_inv_scan)

lemma count_imei_status:
  "distinct (map imei ps) \<Longrightarrow>
   length (filter (\<lambda>p. status p = S \<and> imei p = i) ps)
     = (if map_option status (existingProduct ps i) = Some S then 1 else 0)"
proof (induction ps)
  case Nil
  then show ?case by (simp add: existingProduct_def)
next
  case (Cons p ps)
  show ?case
  proof (cases "imei p = i")
    case True
    have "\<forall>q\<in>set ps. imei q \<noteq> i"
    proof
      fix q assume "q \<in> set ps"
      with Cons.prems have "imei q \<noteq> imei p" by (rule distinct_map_head)
      with True show "imei q \<noteq> i" by simp
    qed
    then have "filter (\<lambda>p. status p = S \<and> imei p = i) ps = []"
      by (simp add: filter_empty_conv)
    with True show ?thesis by (simp add: existingProduct_def)
  next
    case False
    with Cons show ?thesis by (simp add: existingProduct_def)
  qed
qed

lemma length_filter_disj:
  "\<forall>x\<in>set xs. \<not> (P x \<and> Q x) \<Longrightarrow>
   length (filter (\<lambda>x. P x \<or> Q x) xs) = length (filter P xs) + length (filter Q xs)"
  by (induction xs) auto

lemma count_scanned_by_status:
  assumes "distinct (map imei ps)"
  shows "distinct (map item_imei items) \<Longrightarrow>
         list_all (\<lambda>item. product item = existingProduct ps (item_imei item)) items \<Longrightarrow>
         length (filter (\<lambda>p. status p = S) (filter (\<lambda>p. imei p \<in> set (map item_imei items)) ps))
           = length (filter (\<lambda>item. map_option status (product item) = Some S) items)"
proof (induction items)
  case Nil
  show ?case by simp
next
  case (Cons it items)
  let ?i = "item_imei it"
  let ?R = "set (map item_imei items)"
  from Cons.prems have fresh: "?i \<notin> ?R" and d: "distinct (map item_imei items)"
    and bound: "product it = existingProduct ps ?i"
    and rest: "list_all (\<lambda>item. product item = existingProduct ps (item_imei item)) items"
    by simp_all
  have "filter (\<lambda>p. status p = S) (filter (\<lambda>p. imei p \<in> set (map item_imei (it # items))) ps)
          = filter (\<lambda>p. (status p = S \<and> imei p = ?i) \<or> (status p = S \<and> imei p \<in> ?R)) ps"
    by (auto intro: filter_cong)
  also have "length \<dots> = length (filter (\<lambda>p. status p = S \<and> imei p = ?i) ps)
                         + length (filter (\<lambda>p. status p = S \<and> imei p \<in> ?R) ps)"
    using fresh by (intro length_filter_disj) auto
  also have "length (filter (\<lambda>p. status p = S \<and> imei p = ?i) ps)
               = (if map_option status (product it) = Some S then 1 else 0)"
    using count_imei_status [OF assms] bound by simp
  also have "filter (\<lambda>p. status p = S \<and> imei p \<in> ?R) ps
               = filter (\<lambda>p. status p = S) (filter (\<lambda>p. imei p \<in> ?R) ps)"
    by (auto intro: filter_cong)
  also have "length \<dots> = length (filter (\<lambda>item. map_option status (product item) = Some S) items)"
    using Cons.IH [OF d rest] .
  finally show ?case by simp
qed

text \<open>Facts about the sample data.\<close>

lemma trim_A: "trim [0x41] = [0x41]"
  by (simp add: trim_def isWhiteSpace_def)

lemma trim_C: "trim [0x43] = [0x43]"
  by (simp add: trim_def isWhiteSpace_def)

lemma trim_Z: "trim [0x5A] = [0x5A]"
  by (simp add: trim_def isWhiteSpace_def)

lemma sample_lookup_A:
  "existingProduct sample_products [0x41] = Some (sample_product 1 [0x41] Disponible)"
  by (simp add: existingProduct_def sample_products_def sample_product_def)

lemma sample_lookup_C:
  "existingProduct sample_products [0x43] = Some (sample_product 3 [0x43] Vendido)"
  by (simp add: existingProduct_def sample_products_def sample_product_def)

lemma sample_lookup_Z: "existingProduct sample_products [0x5A] = None"
  by (simp add: existingProduct_def sample_products_def sample_product_def)

lemma missing_of_example:
  "missingProducts
     (finalizeScanningSession sample_products (startScanningSession sample_products initial_state))
     = [sample_product 1 [0x41] Disponible, sample_product 2 [0x42] Reservado]"
  by (simp add: finalizeScanningSession_def startScanningSession_def Let_def
      sample_products_def sample_product_def scannable_def)

subsection \<open>Start\<close>

text \<open>
  Claim C7. For every snapshot, \<^verbatim>\<open>startScanningSession\<close> stores as baseline the number
  of records of each of the three scannable statuses (disponible, reservado,
  tecnico_interno), with a total that is the sum of the three counts; it empties the scan
  log and the list of missing products and makes the session active.
\<close>

theorem start_computes_baseline:
  "sessionStartCounts (startScanningSession ps s) =
     \<lparr> disponible = length (filter (\<lambda>p. status p = Disponible) ps),
       reservado = length (filter (\<lambda>p. status p = Reservado) ps),
       tecnico_interno = length (filter (\<lambda>p. status p = Tecnico_interno) ps),
       total = length (filter (\<lambda>p. scannable (status p)) ps) \<rparr>
   \<and> total (sessionStartCounts (startScanningSession ps s)) =
       disponible (sessionStartCounts (startScanningSession ps s))
     + reservado (sessionStartCounts (startScanningSession ps s))
     + tecnico_interno (sessionStartCounts (startScanningSession ps s))
   \<and> scannedItems (startScanningSession ps s) = []
   \<and> missingProducts (startScanningSession ps s) = []
   \<and> isScanning (startScanningSession ps s) = True"
  by (simp add: startScanningSession_def Let_def length_filter_scannable)

theorem start_computes_baseline_witness:
  "sessionStartCounts (startScanningSession sample_products initial_state) =
     \<lparr> disponible = 1, reservado = 1, tecnico_interno = 0, total = 2 \<rparr>
   \<and> scannedItems (startScanningSession sample_products initial_state) = []
   \<and> isScanning (startScanningSession sample_products initial_state)"
  using start_computes_baseline [of sample_products initial_state]
  by (simp add: sample_products_def sample_product_def scannable_def)

subsection \<open>Finalize\<close>

text \<open>
  Claim C1. For every session, \<^verbatim>\<open>finalizeScanningSession\<close> stores as missing exactly
  the records of the snapshot whose status is scannable and whose IMEI is not in the scan
  log, and announces one of three outcomes: complete (\<open>ControlCompletadoPerfecto\<close>) if
  and only if the number of scans equals the expected total and nothing is missing;
  discrepancy (\<open>ProductosFaltantesDetectados\<close>) if and only if something is missing,
  whatever the number of scans; incomplete (\<open>ControlIncompleto\<close>) otherwise. The scan
  log is left as it is.
\<close>

theorem finalize_missing_and_outcome:
  fixes ps :: "Product list" and s :: state
  defines "s' \<equiv> finalizeScanningSession ps s"
  defines "missing \<equiv>
     filter (\<lambda>p. scannable (status p) \<and> imei p \<notin> set (map item_imei (scannedItems s))) ps"
  defines "n \<equiv> length (scannedItems s)"
  defines "e \<equiv> total (sessionStartCounts s)"
  shows "missingProducts s' = missing
   \<and> scannedItems s' = scannedItems s
   \<and> isScanning s' = False
   \<and> (toasts s' = toasts s @ [ControlCompletadoPerfecto n] \<longleftrightarrow> n = e \<and> missing = [])
   \<and> (toasts s' = toasts s @ [ProductosFaltantesDetectados (length missing)] \<longleftrightarrow> missing \<noteq> [])
   \<and> (toasts s' = toasts s @ [ControlIncompleto n e] \<longleftrightarrow> n \<noteq> e \<and> missing = [])"
  unfolding s'_def missing_def n_def e_def
  by (simp add: finalizeScanningSession_def Let_def)

text \<open>
  The example of the specification: of the two scannable products only \<open>A\<close> is scanned;
  finalize reports the reserved product \<open>B\<close> as missing and announces a discrepancy.
\<close>

theorem finalize_missing_and_outcome_witness:
  "missingProducts
     (finalizeScanningSession sample_products
        (scan sample_products 5 [0x41] (startScanningSession sample_products initial_state)))
     = [sample_product 2 [0x42] Reservado]
   \<and> toasts
     (finalizeScanningSession sample_products
        (scan sample_products 5 [0x41] (startScanningSession sample_products initial_state)))
     = toasts (scan sample_products 5 [0x41] (startScanningSession sample_products initial_state))
       @ [ProductosFaltantesDetectados 1]"
proof -
  let ?s = "scan sample_products 5 [0x41] (startScanningSession sample_products initial_state)"
  have log: "map item_imei (scannedItems ?s) = [ [0x41] ]"
    by (simp add: scan_def handleScan_def trim_A sample_lookup_A startScanningSession_def
        Let_def alreadyScanned_def sample_product_def)
  have missing: "filter (\<lambda>p. scannable (status p) \<and> imei p \<notin> set (map item_imei (scannedItems ?s)))
                   sample_products = [sample_product 2 [0x42] Reservado]"
    unfolding log by (simp add: sample_products_def sample_product_def scannable_def)
  from finalize_missing_and_outcome [of sample_products ?s]
  show ?thesis unfolding missing by simp
qed

text \<open>
  Claim C3. For every snapshot, start followed at once by finalize, with no scan between
  them, reports as missing all the scannable records of the snapshot, and the outcome is
  the discrepancy if and only if there is such a record (with none, the outcome is
  complete, with zero products verified).
\<close>

theorem start_then_finalize_reports_all_scannable:
  "missingProducts (finalizeScanningSession ps (startScanningSession ps s))
     = filter (\<lambda>p. scannable (status p)) ps
   \<and> (toasts (finalizeScanningSession ps (startScanningSession ps s))
        = toasts (startScanningSession ps s)
          @ [ProductosFaltantesDetectados (length (filter (\<lambda>p. scannable (status p)) ps))]
      \<longleftrightarrow> filter (\<lambda>p. scannable (status p)) ps \<noteq> [])
   \<and> (toasts (finalizeScanningSession ps (startScanningSession ps s))
        = toasts (startScanningSession ps s) @ [ControlCompletadoPerfecto 0]
      \<longleftrightarrow> filter (\<lambda>p. scannable (status p)) ps = [])"
  by (simp add: finalizeScanningSession_def startScanningSession_def Let_def)

theorem start_then_finalize_reports_all_scannable_witness:
  "missingProducts
     (finalizeScanningSession sample_products (startScanningSession sample_products initial_state))
     = [sample_product 1 [0x41] Disponible, sample_product 2 [0x42] Reservado]
   \<and> toasts
     (finalizeScanningSession sample_products (startScanningSession sample_products initial_state))
     = toasts (startScanningSession sample_products initial_state)
       @ [ProductosFaltantesDetectados 2]"
proof -
  have all: "filter (\<lambda>p. scannable (status p)) sample_products
               = [sample_product 1 [0x41] Disponible, sample_product 2 [0x42] Reservado]"
    by (simp add: sample_products_def sample_product_def scannable_def)
  from start_then_finalize_reports_all_scannable [of sample_products initial_state]
  show ?thesis unfolding all by simp
qed

subsection \<open>Scanning the same IMEI twice\<close>

text \<open>
  Claim C2. In a session whose log does not yet hold the IMEI, scanning twice an IMEI
  whose record is in the snapshot with a scannable status adds one entry, not two: the
  second scan leaves the log as the first one made it and is answered with the duplicate
  notice (\<open>ImeiYaEscaneado\<close>). The same holds for \<^verbatim>\<open>handleImeiScan\<close> of the older
  page, which knows no snapshot (\<open>ImeiDuplicado\<close>).
\<close>

theorem second_scan_rejected_as_duplicate:
  assumes "trim input \<noteq> []"
    and "existingProduct ps (trim input) = Some p"
    and "scannable (status p)"
    and "trim input \<notin> set (scannedIMEIs s)"
    and "trim input \<notin> set (page_scannedItems q)"
  shows "length (scannedItems (scan ps t2 input (scan ps t1 input s))) = length (scannedItems s) + 1
       \<and> scannedItems (scan ps t2 input (scan ps t1 input s)) = scannedItems (scan ps t1 input s)
       \<and> toasts (scan ps t2 input (scan ps t1 input s))
           = toasts (scan ps t1 input s) @ [ImeiYaEscaneado]
       \<and> length (page_scannedItems (page_scan input (page_scan input q)))
           = length (page_scannedItems q) + 1
       \<and> page_scannedItems (page_scan input (page_scan input q))
           = page_scannedItems (page_scan input q)
       \<and> page_toasts (page_scan input (page_scan input q))
           = page_toasts (page_scan input q) @ [ImeiDuplicado (trim input)]"
proof -
  let ?s0 = "s\<lparr> imeiInput := input \<rparr>"
  have first: "scan ps t1 input s =
      ?s0\<lparr> scannedItems := \<lparr> item_imei = trim input, product = Some p,
                               timestamp = t1, item_status = Found \<rparr> # scannedItems s,
            toasts := toasts s @ [ProductoVerificado (model p) (color p) (status p)],
            imeiInput := [] \<rparr>"
    unfolding scan_def
    using handleScan_found_new [of ?s0 ps p t1] assms by (simp add: scannedIMEIs_def)
  let ?s1 = "(scan ps t1 input s)\<lparr> imeiInput := input \<rparr>"
  have second: "scan ps t2 input (scan ps t1 input s) =
      ?s1\<lparr> toasts := toasts ?s1 @ [ImeiYaEscaneado], imeiInput := [] \<rparr>"
    unfolding scan_def [of ps t2]
    using handleScan_duplicate [of ?s1 ps t2] assms by (simp add: first scannedIMEIs_def)
  let ?q0 = "q\<lparr> page_imeiInput := input \<rparr>"
  have pfirst: "page_scan input q =
      ?q0\<lparr> page_scannedItems := page_scannedItems q @ [trim input],
            page_toasts := page_toasts q @ [ImeiEscaneado (trim input)],
            page_imeiInput := [] \<rparr>"
    unfolding page_scan_def
    using handleImeiScan_new [of ?q0] assms by simp
  let ?q1 = "(page_scan input q)\<lparr> page_imeiInput := input \<rparr>"
  have psecond: "page_scan input (page_scan input q) =
      ?q1\<lparr> page_toasts := page_toasts ?q1 @ [ImeiDuplicado (trim input)], page_imeiInput := [] \<rparr>"
    unfolding page_scan_def [of input "page_scan input q"]
    using handleImeiScan_duplicate [of ?q1] assms by (simp add: pfirst)
  show ?thesis
    by (simp add: second psecond) (simp add: first pfirst)
qed

theorem second_scan_rejected_as_duplicate_witness:
  "trim [0x41] \<noteq> []
   \<and> existingProduct sample_products (trim [0x41]) = Some (sample_product 1 [0x41] Disponible)
   \<and> scannable (status (sample_product 1 [0x41] Disponible))
   \<and> trim [0x41] \<notin> set (scannedIMEIs initial_state)
   \<and> trim [0x41] \<notin> set (page_scannedItems page_initial_state)
   \<and> length (scannedItems (scan sample_products 8 [0x41] (scan sample_products 7 [0x41] initial_state))) = 1
   \<and> toasts (scan sample_products 8 [0x41] (scan sample_products 7 [0x41] initial_state))
       = toasts (scan sample_products 7 [0x41] initial_state) @ [ImeiYaEscaneado]
   \<and> length (page_scannedItems (page_scan [0x41] (page_scan [0x41] page_initial_state))) = 1"
proof -
  have h1: "trim [0x41] \<noteq> []" by (simp add: trim_A)
  have h2: "existingProduct sample_products (trim [0x41]) = Some (sample_product 1 [0x41] Disponible)"
    by (simp add: trim_A sample_lookup_A)
  have h3: "scannable (status (sample_product 1 [0x41] Disponible))"
    by (simp add: scannable_def sample_product_def)
  have h4: "trim [0x41] \<notin> set (scannedIMEIs initial_state)"
    by (simp add: scannedIMEIs_def initial_state_def)
  have h5: "trim [0x41] \<notin> set (page_scannedItems page_initial_state)"
    by (simp add: page_initial_state_def)
  note r = second_scan_rejected_as_duplicate [OF h1 h2 h3 h4 h5, of 8 7]
  have l0: "length (scannedItems initial_state) = 0"
    "length (page_scannedItems page_initial_state) = 0"
    by (simp_all add: initial_state_def page_initial_state_def)
  from r [THEN conjunct1] l0
  have c1: "length (scannedItems (scan sample_products 8 [0x41]
              (scan sample_products 7 [0x41] initial_state))) = 1"
    by simp
  from r [THEN conjunct2, THEN conjunct2, THEN conjunct2, THEN conjunct1] l0
  have c2: "length (page_scannedItems (page_scan [0x41] (page_scan [0x41] page_initial_state))) = 1"
    by simp
  from r c1 c2 h1 h2 h3 h4 h5 show ?thesis by blast
qed

subsection \<open>Scanning a product that needs no verification\<close>

text \<open>
  Claim C6. For every session and every non-empty IMEI whose record in the snapshot (the
  one the lookup finds) has a status that is not scannable (vendido, extravio,
  tecnico_externo, a_reparar), \<^verbatim>\<open>handleScan\<close> rejects the scan with the notice that
  the product needs no physical verification (\<open>ProductoNoValido\<close>) and adds nothing:
  the scan log is unchanged, and so is the rest of the state but the emptied input field.
\<close>

theorem non_scannable_scan_rejected:
  assumes "trim (imeiInput s) \<noteq> []"
    and "existingProduct ps (trim (imeiInput s)) = Some p"
    and "\<not> scannable (status p)"
  shows "scannedItems (handleScan ps now s) = scannedItems s
       \<and> toasts (handleScan ps now s) = toasts s @ [ProductoNoValido (status p)]
       \<and> handleScan ps now s
           = s\<lparr> toasts := toasts s @ [ProductoNoValido (status p)], imeiInput := [] \<rparr>"
  using handleScan_not_scannable [OF assms] by simp

theorem non_scannable_scan_rejected_witness:
  "trim (imeiInput (initial_state\<lparr> imeiInput := [0x43] \<rparr>)) \<noteq> []
   \<and> existingProduct sample_products (trim (imeiInput (initial_state\<lparr> imeiInput := [0x43] \<rparr>)))
       = Some (sample_product 3 [0x43] Vendido)
   \<and> \<not> scannable (status (sample_product 3 [0x43] Vendido))
   \<and> scannedItems (handleScan sample_products 9 (initial_state\<lparr> imeiInput := [0x43] \<rparr>)) = []
   \<and> toasts (handleScan sample_products 9 (initial_state\<lparr> imeiInput := [0x43] \<rparr>))
       = [ProductoNoValido Vendido]"
proof -
  let ?s = "initial_state\<lparr> imeiInput := [0x43] \<rparr>"
  have h1: "trim (imeiInput ?s) \<noteq> []" by (simp add: trim_C)
  have h2: "existingProduct sample_products (trim (imeiInput ?s)) = Some (sample_product 3 [0x43] Vendido)"
    by (simp add: trim_C sample_lookup_C)
  have h3: "\<not> scannable (status (sample_product 3 [0x43] Vendido))"
    by (simp add: scannable_def sample_product_def)
  note r = non_scannable_scan_rejected [OF h1 h2 h3, of 9]
  have e: "scannedItems ?s = []" "toasts ?s = []" "status (sample_product 3 [0x43] Vendido) = Vendido"
    by (simp_all add: initial_state_def sample_product_def)
  from r [THEN conjunct1] e have c1: "scannedItems (handleScan sample_products 9 ?s) = []" by simp
  from r [THEN conjunct2, THEN conjunct1] e
  have c2: "toasts (handleScan sample_products 9 ?s) = [ProductoNoValido Vendido]" by simp
  from h1 h2 h3 c1 c2 show ?thesis by blast
qed

subsection \<open>The scan handler and the session flag\<close>

text \<open>
  Claim C10. \<^verbatim>\<open>handleScan\<close> never reads \<^verbatim>\<open>isScanning\<close>: running it commutes with
  setting the flag, and in a state whose flag is false a valid IMEI that is not yet in the
  log is still recorded as found, while the flag stays false.
\<close>

theorem scan_ignores_isScanning:
  "handleScan ps now (s\<lparr> isScanning := b \<rparr>) = (handleScan ps now s)\<lparr> isScanning := b \<rparr>
   \<and> (\<not> isScanning s \<and> trim (imeiInput s) \<noteq> []
        \<and> existingProduct ps (trim (imeiInput s)) = Some p \<and> scannable (status p)
        \<and> trim (imeiInput s) \<notin> set (scannedIMEIs s)
      \<longrightarrow> scannedItems (handleScan ps now s)
            = \<lparr> item_imei = trim (imeiInput s), product = Some p,
                timestamp = now, item_status = Found \<rparr> # scannedItems s
          \<and> \<not> isScanning (handleScan ps now s))"
proof (intro conjI impI)
  show "handleScan ps now (s\<lparr> isScanning := b \<rparr>) = (handleScan ps now s)\<lparr> isScanning := b \<rparr>"
    by (simp add: handleScan_def split: option.splits)
next
  assume a: "\<not> isScanning s \<and> trim (imeiInput s) \<noteq> []
        \<and> existingProduct ps (trim (imeiInput s)) = Some p \<and> scannable (status p)
        \<and> trim (imeiInput s) \<notin> set (scannedIMEIs s)"
  then have "handleScan ps now s =
           s\<lparr> scannedItems := \<lparr> item_imei = trim (imeiInput s), product = Some p,
                                 timestamp = now, item_status = Found \<rparr> # scannedItems s,
              toasts := toasts s @ [ProductoVerificado (model p) (color p) (status p)],
              imeiInput := [] \<rparr>"
    using handleScan_found_new [of s ps p now] by blast
  with a show "scannedItems (handleScan ps now s)
            = \<lparr> item_imei = trim (imeiInput s), product = Some p,
                timestamp = now, item_status = Found \<rparr> # scannedItems s"
    and "\<not> isScanning (handleScan ps now s)" by simp_all
qed

theorem scan_ignores_isScanning_witness:
  "\<not> isScanning (initial_state\<lparr> imeiInput := [0x41] \<rparr>)
   \<and> trim (imeiInput (initial_state\<lparr> imeiInput := [0x41] \<rparr>)) \<noteq> []
   \<and> existingProduct sample_products (trim (imeiInput (initial_state\<lparr> imeiInput := [0x41] \<rparr>)))
       = Some (sample_product 1 [0x41] Disponible)
   \<and> scannable (status (sample_product 1 [0x41] Disponible))
   \<and> trim (imeiInput (initial_state\<lparr> imeiInput := [0x41] \<rparr>))
       \<notin> set (scannedIMEIs (initial_state\<lparr> imeiInput := [0x41] \<rparr>))
   \<and> scannedItems (handleScan sample_products 4 (initial_state\<lparr> imeiInput := [0x41] \<rparr>))
       = [\<lparr> item_imei = [0x41], product = Some (sample_product 1 [0x41] Disponible),
            timestamp = 4, item_status = Found \<rparr>]
   \<and> \<not> isScanning (handleScan sample_products 4 (initial_state\<lparr> imeiInput := [0x41] \<rparr>))"
proof -
  let ?s = "initial_state\<lparr> imeiInput := [0x41] \<rparr>"
  have h0: "\<not> isScanning ?s" by (simp add: initial_state_def)
  have h1: "trim (imeiInput ?s) \<noteq> []" by (simp add: trim_A)
  have h2: "existingProduct sample_products (trim (imeiInput ?s))
              = Some (sample_product 1 [0x41] Disponible)"
    by (simp add: trim_A sample_lookup_A)
  have h3: "scannable (status (sample_product 1 [0x41] Disponible))"
    by (simp add: scannable_def sample_product_def)
  have h4: "trim (imeiInput ?s) \<notin> set (scannedIMEIs ?s)"
    by (simp add: scannedIMEIs_def initial_state_def)
  from scan_ignores_isScanning [where ps = sample_products and now = 4 and s = ?s and b = False
      and p = "sample_product 1 [0x41] Disponible"]
    h0 h1 h2 h3 h4
  have r: "scannedItems (handleScan sample_products 4 ?s)
            = \<lparr> item_imei = trim (imeiInput ?s), product = Some (sample_product 1 [0x41] Disponible),
                timestamp = 4, item_status = Found \<rparr> # scannedItems ?s
          \<and> \<not> isScanning (handleScan sample_products 4 ?s)" by blast
  have e: "scannedItems ?s = []" "trim (imeiInput ?s) = [0x41]"
    by (simp_all add: initial_state_def trim_A)
  from r e have c: "scannedItems (handleScan sample_products 4 ?s)
       = [\<lparr> item_imei = [0x41], product = Some (sample_product 1 [0x41] Disponible),
            timestamp = 4, item_status = Found \<rparr>]" by simp
  from h0 h1 h2 h3 h4 c r show ?thesis by blast
qed

subsection \<open>Scanning an IMEI that is not in the snapshot\<close>

text \<open>
  Claim C4 says that every non-empty IMEI that matches no record of the snapshot is
  logged as not found and reported as unknown. That fails when the unknown IMEI is
  already in the log: \<^verbatim>\<open>handleScan\<close> tests \<^verbatim>\<open>alreadyScanned\<close> for unknown IMEIs
  too. Here the unknown IMEI \<open>Z\<close> is scanned twice in an active session; the second scan
  adds nothing and is answered with the duplicate notice.
\<close>

theorem unknown_imei_scanned_again_counterexample:
  "trim [0x5A] \<noteq> []
   \<and> existingProduct sample_products (trim [0x5A]) = None
   \<and> isScanning (scan sample_products 1 [0x5A] (startScanningSession sample_products initial_state))
   \<and> scannedItems (scan sample_products 2 [0x5A]
        (scan sample_products 1 [0x5A] (startScanningSession sample_products initial_state)))
     = scannedItems (scan sample_products 1 [0x5A] (startScanningSession sample_products initial_state))
   \<and> toasts (scan sample_products 2 [0x5A]
        (scan sample_products 1 [0x5A] (startScanningSession sample_products initial_state)))
     = toasts (scan sample_products 1 [0x5A] (startScanningSession sample_products initial_state))
       @ [ImeiYaEscaneado]"
  by (simp add: scan_def handleScan_def trim_Z sample_lookup_Z startScanningSession_def Let_def
      alreadyScanned_def initial_state_def)

text \<open>
  Claim C4, amended. For every session: an input that is empty or holds only white space
  is a no-op; a non-empty trimmed IMEI that matches no record of the snapshot and is not
  yet in the scan log is added to the log, as its first entry, with outcome not found and
  no bound record, and is reported as unknown (\<open>ImeiNoEncontrado\<close>); if it is already
  in the log, the log is unchanged and the scan is reported as a duplicate
  (\<open>ImeiYaEscaneado\<close>).
\<close>

theorem unknown_imei_scan:
  "(list_all isWhiteSpace (imeiInput s) \<longrightarrow> handleScan ps now s = s)
   \<and> (trim (imeiInput s) \<noteq> [] \<and> existingProduct ps (trim (imeiInput s)) = None
        \<and> trim (imeiInput s) \<notin> set (scannedIMEIs s)
      \<longrightarrow> scannedItems (handleScan ps now s)
            = \<lparr> item_imei = trim (imeiInput s), product = None,
                timestamp = now, item_status = Not_found \<rparr> # scannedItems s
          \<and> toasts (handleScan ps now s) = toasts s @ [ImeiNoEncontrado (trim (imeiInput s))])
   \<and> (trim (imeiInput s) \<noteq> [] \<and> existingProduct ps (trim (imeiInput s)) = None
        \<and> trim (imeiInput s) \<in> set (scannedIMEIs s)
      \<longrightarrow> scannedItems (handleScan ps now s) = scannedItems s
          \<and> toasts (handleScan ps now s) = toasts s @ [ImeiYaEscaneado])"
proof (intro conjI impI)
  assume "list_all isWhiteSpace (imeiInput s)"
  then show "handleScan ps now s = s"
    by (simp add: handleScan_empty trim_whitespace_only)
next
  assume a: "trim (imeiInput s) \<noteq> [] \<and> existingProduct ps (trim (imeiInput s)) = None
        \<and> trim (imeiInput s) \<notin> set (scannedIMEIs s)"
  then have e: "handleScan ps now s =
           s\<lparr> scannedItems := \<lparr> item_imei = trim (imeiInput s), product = None,
                                 timestamp = now, item_status = Not_found \<rparr> # scannedItems s,
              toasts := toasts s @ [ImeiNoEncontrado (trim (imeiInput s))],
              imeiInput := [] \<rparr>"
    using handleScan_unknown_new [of s ps now] by blast
  show "scannedItems (handleScan ps now s)
            = \<lparr> item_imei = trim (imeiInput s), product = None,
                timestamp = now, item_status = Not_found \<rparr> # scannedItems s"
    and "toasts (handleScan ps now s) = toasts s @ [ImeiNoEncontrado (trim (imeiInput s))]"
    by (simp_all add: e)
next
  assume a: "trim (imeiInput s) \<noteq> [] \<and> existingProduct ps (trim (imeiInput s)) = None
        \<and> trim (imeiInput s) \<in> set (scannedIMEIs s)"
  then have e: "handleScan ps now s = s\<lparr> toasts := toasts s @ [ImeiYaEscaneado], imeiInput := [] \<rparr>"
    using handleScan_duplicate [of s ps now] by simp
  show "scannedItems (handleScan ps now s) = scannedItems s"
    and "toasts (handleScan ps now s) = toasts s @ [ImeiYaEscaneado]"
    by (simp_all add: e)
qed

theorem unknown_imei_scan_witness:
  "list_all isWhiteSpace (imeiInput (initial_state\<lparr> imeiInput := [0x20, 0x09] \<rparr>))
   \<and> handleScan sample_products 3 (initial_state\<lparr> imeiInput := [0x20, 0x09] \<rparr>)
       = initial_state\<lparr> imeiInput := [0x20, 0x09] \<rparr>
   \<and> trim (imeiInput (initial_state\<lparr> imeiInput := [0x5A] \<rparr>)) \<noteq> []
   \<and> existingProduct sample_products (trim (imeiInput (initial_state\<lparr> imeiInput := [0x5A] \<rparr>)))
       = None
   \<and> trim (imeiInput (initial_state\<lparr> imeiInput := [0x5A] \<rparr>))
       \<notin> set (scannedIMEIs (initial_state\<lparr> imeiInput := [0x5A] \<rparr>))
   \<and> scannedItems (handleScan sample_products 3 (initial_state\<lparr> imeiInput := [0x5A] \<rparr>))
       = [\<lparr> item_imei = [0x5A], product = None, timestamp = 3, item_status = Not_found \<rparr>]
   \<and> toasts (handleScan sample_products 3 (initial_state\<lparr> imeiInput := [0x5A] \<rparr>))
       = [ImeiNoEncontrado [0x5A]]
   \<and> trim (imeiInput ((scan sample_products 3 [0x5A] initial_state)\<lparr> imeiInput := [0x5A] \<rparr>))
       \<in> set (scannedIMEIs ((scan sample_products 3 [0x5A] initial_state)\<lparr> imeiInput := [0x5A] \<rparr>))
   \<and> scannedItems (handleScan sample_products 4
         ((scan sample_products 3 [0x5A] initial_state)\<lparr> imeiInput := [0x5A] \<rparr>))
       = scannedItems (scan sample_products 3 [0x5A] initial_state)"
proof -
  let ?w = "initial_state\<lparr> imeiInput := [0x20, 0x09] \<rparr>"
  let ?z = "initial_state\<lparr> imeiInput := [0x5A] \<rparr>"
  let ?d = "(scan sample_products 3 [0x5A] initial_state)\<lparr> imeiInput := [0x5A] \<rparr>"
  have w1: "list_all isWhiteSpace (imeiInput ?w)" by (simp add: isWhiteSpace_def)
  have z1: "trim (imeiInput ?z) \<noteq> []" by (simp add: trim_Z)
  have z2: "existingProduct sample_products (trim (imeiInput ?z)) = None"
    by (simp add: trim_Z sample_lookup_Z)
  have z3: "trim (imeiInput ?z) \<notin> set (scannedIMEIs ?z)"
    by (simp add: scannedIMEIs_def initial_state_def)
  have d1: "trim (imeiInput ?d) \<noteq> []" by (simp add: trim_Z)
  have d2: "existingProduct sample_products (trim (imeiInput ?d)) = None"
    by (simp add: trim_Z sample_lookup_Z)
  have d3: "trim (imeiInput ?d) \<in> set (scannedIMEIs ?d)"
    by (simp add: scannedIMEIs_def scan_def handleScan_def trim_Z sample_lookup_Z
        alreadyScanned_def initial_state_def)
  from unknown_imei_scan [of ?w sample_products 3] w1
  have c1: "handleScan sample_products 3 ?w = ?w" by blast
  from unknown_imei_scan [of ?z sample_products 3] z1 z2 z3
  have r2: "scannedItems (handleScan sample_products 3 ?z)
              = \<lparr> item_imei = trim (imeiInput ?z), product = None,
                  timestamp = 3, item_status = Not_found \<rparr> # scannedItems ?z
          \<and> toasts (handleScan sample_products 3 ?z)
              = toasts ?z @ [ImeiNoEncontrado (trim (imeiInput ?z))]" by blast
  have e: "scannedItems ?z = []" "toasts ?z = []" "trim (imeiInput ?z) = [0x5A]"
    by (simp_all add: initial_state_def trim_Z)
  from r2 [THEN conjunct1] e
  have c2: "scannedItems (handleScan sample_products 3 ?z)
       = [\<lparr> item_imei = [0x5A], product = None, timestamp = 3, item_status = Not_found \<rparr>]"
    by simp
  from r2 [THEN conjunct2] e
  have c3: "toasts (handleScan sample_products 3 ?z) = [ImeiNoEncontrado [0x5A]]" by simp
  from unknown_imei_scan [of ?d sample_products 4] d1 d2 d3
  have "scannedItems (handleScan sample_products 4 ?d) = scannedItems ?d" by blast
  then have c4: "scannedItems (handleScan sample_products 4 ?d)
                   = scannedItems (scan sample_products 3 [0x5A] initial_state)" by simp
  from w1 c1 z1 z2 z3 c2 c3 d3 c4 show ?thesis by blast
qed

subsection \<open>The order of the scan log\<close>

text \<open>
  Claim C5 says that each accepted scan becomes the last element of the scan log. In
  \<^verbatim>\<open>handleScan\<close> it becomes the first one (\<^verbatim>\<open>[newItem, ...prev]\<close>): after the scans
  of \<open>A\<close> and then \<open>B\<close> the log holds \<open>B\<close> before \<open>A\<close>, and its last element is the
  scan that arrived first.
\<close>

theorem accepted_scan_is_first_not_last_counterexample:
  "scannedItems (scans sample_products [([0x41], 1), ([0x42], 2)]
       (startScanningSession sample_products initial_state))
     = [\<lparr> item_imei = [0x42], product = Some (sample_product 2 [0x42] Reservado),
           timestamp = 2, item_status = Found \<rparr>,
        \<lparr> item_imei = [0x41], product = Some (sample_product 1 [0x41] Disponible),
           timestamp = 1, item_status = Found \<rparr>]
   \<and> item_imei (last (scannedItems (scans sample_products [([0x41], 1), ([0x42], 2)]
       (startScanningSession sample_products initial_state)))) = [0x41]"
  by (simp add: scan_def handleScan_def trim_def isWhiteSpace_def existingProduct_def
      sample_products_def sample_product_def startScanningSession_def Let_def
      alreadyScanned_def initial_state_def)

text \<open>
  Claim C5, amended. For every sequence of scans, \<^verbatim>\<open>handleScan\<close> puts each accepted
  scan in front of the scan log and leaves the entries that were there behind it, unchanged
  and in their order, so the log holds the accepted scans newest first and the log before
  a sequence of scans is a suffix of the log after it; \<^verbatim>\<open>handleImeiScan\<close> of the
  older page puts an accepted IMEI at the end. No scan, no finalize and no marking as
  lost reorders the log or removes an entry from it.
\<close>

theorem scan_log_grows_at_front:
  "suffix (scannedItems s) (scannedItems (scans ps inputs s))
   \<and> (scannedItems (handleScan ps now s) = scannedItems s
      \<or> (\<exists>item. scannedItems (handleScan ps now s) = item # scannedItems s
            \<and> item_imei item = trim (imeiInput s) \<and> timestamp item = now))
   \<and> (page_scannedItems (handleImeiScan key q) = page_scannedItems q
      \<or> page_scannedItems (handleImeiScan key q) = page_scannedItems q @ [trim (page_imeiInput q)])
   \<and> scannedItems (finalizeScanningSession ps s) = scannedItems s
   \<and> scannedItems (handleMarkAsLost fetch p s) = scannedItems s"
proof (intro conjI)
  show "suffix (scannedItems s) (scannedItems (scans ps inputs s))"
    by (rule scans_log_suffix)
  show "scannedItems (handleScan ps now s) = scannedItems s
      \<or> (\<exists>item. scannedItems (handleScan ps now s) = item # scannedItems s
            \<and> item_imei item = trim (imeiInput s) \<and> timestamp item = now)"
    using handleScan_log_cases [of ps now s] by blast
  show "page_scannedItems (handleImeiScan key q) = page_scannedItems q
      \<or> page_scannedItems (handleImeiScan key q) = page_scannedItems q @ [trim (page_imeiInput q)]"
    by (simp add: handleImeiScan_def Let_def)
  show "scannedItems (finalizeScanningSession ps s) = scannedItems s"
    by (simp add: finalizeScanningSession_def Let_def)
  show "scannedItems (handleMarkAsLost fetch p s) = scannedItems s"
    by (simp add: handleMarkAsLost_def Let_def split: PatchOutcome.splits)
qed

theorem scan_log_grows_at_front_witness:
  "suffix (scannedItems (scan sample_products 1 [0x41] initial_state))
     (scannedItems (scans sample_products [([0x42], 2), ([0x5A], 3)]
        (scan sample_products 1 [0x41] initial_state)))
   \<and> map item_imei (scannedItems (scans sample_products [([0x42], 2), ([0x5A], 3)]
        (scan sample_products 1 [0x41] initial_state))) = [ [0x5A], [0x42], [0x41] ]"
proof -
  have "map item_imei (scannedItems (scans sample_products [([0x42], 2), ([0x5A], 3)]
        (scan sample_products 1 [0x41] initial_state))) = [ [0x5A], [0x42], [0x41] ]"
    by (simp add: scan_def handleScan_def trim_def isWhiteSpace_def existingProduct_def
        sample_products_def sample_product_def alreadyScanned_def initial_state_def)
  with scan_log_grows_at_front [of "scan sample_products 1 [0x41] initial_state" sample_products
      "[([0x42], 2), ([0x5A], 3)]"]
  show ?thesis by blast
qed

subsection \<open>Marking a missing product as lost\<close>

text \<open>
  Claim C9. For every record of the list of missing products (whose identifiers are
  unique, as database identifiers are), \<^verbatim>\<open>handleMarkAsLost\<close> asks the server to set
  the status of that record to extravio. When the server accepts the request, exactly that
  record leaves the list, and the session's log, baseline and flag are untouched. When the
  server refuses it or the request throws, the state is the one before plus the error
  notice: the list of missing products is unchanged.
\<close>

theorem markAsLost_removes_on_success_only:
  assumes "p \<in> set (missingProducts s)"
    and "distinct (map product_id (missingProducts s))"
  shows "(fetch \<lparr> patch_id = product_id p, patch_status = Extravio \<rparr> = ResponseOk refetched
            \<longrightarrow> missingProducts (handleMarkAsLost fetch p s) = remove1 p (missingProducts s)
              \<and> p \<notin> set (missingProducts (handleMarkAsLost fetch p s))
              \<and> scannedItems (handleMarkAsLost fetch p s) = scannedItems s
              \<and> sessionStartCounts (handleMarkAsLost fetch p s) = sessionStartCounts s
              \<and> isScanning (handleMarkAsLost fetch p s) = isScanning s)
       \<and> (fetch \<lparr> patch_id = product_id p, patch_status = Extravio \<rparr> = ResponseNotOk msg
            \<longrightarrow> handleMarkAsLost fetch p s = s\<lparr> toasts := toasts s @ [ErrorAlActualizar msg] \<rparr>)
       \<and> (fetch \<lparr> patch_id = product_id p, patch_status = Extravio \<rparr> = RequestThrew
            \<longrightarrow> handleMarkAsLost fetch p s = s\<lparr> toasts := toasts s @ [NoSePudoActualizar] \<rparr>)"
proof -
  have rm: "filter (\<lambda>q. product_id q \<noteq> product_id p) (missingProducts s)
              = remove1 p (missingProducts s)"
    using assms by (simp add: filter_other_ids)
  have "distinct (missingProducts s)"
    using assms(2) by (rule distinct_map [THEN iffD1, THEN conjunct1])
  then have gone: "p \<notin> set (remove1 p (missingProducts s))" by simp
  show ?thesis
    using gone by (simp add: handleMarkAsLost_def Let_def rm)
qed

text \<open>
  After a start and a finalize with no scan, \<open>A\<close> and \<open>B\<close> are missing. A server that
  accepts the request for \<open>B\<close> (identifier 2, status extravio) and refuses any other
  takes \<open>B\<close> off the list; a request that throws leaves both on it.
\<close>

theorem markAsLost_removes_on_success_only_witness:
  "sample_product 2 [0x42] Reservado
     \<in> set (missingProducts (finalizeScanningSession sample_products
               (startScanningSession sample_products initial_state)))
   \<and> distinct (map product_id (missingProducts (finalizeScanningSession sample_products
               (startScanningSession sample_products initial_state))))
   \<and> missingProducts
        (handleMarkAsLost
           (\<lambda>r. if r = \<lparr> patch_id = 2, patch_status = Extravio \<rparr>
                then ResponseOk True else ResponseNotOk None)
           (sample_product 2 [0x42] Reservado)
           (finalizeScanningSession sample_products
              (startScanningSession sample_products initial_state)))
       = [sample_product 1 [0x41] Disponible]
   \<and> missingProducts
        (handleMarkAsLost (\<lambda>r. RequestThrew) (sample_product 2 [0x42] Reservado)
           (finalizeScanningSession sample_products
              (startScanningSession sample_products initial_state)))
       = [sample_product 1 [0x41] Disponible, sample_product 2 [0x42] Reservado]"
proof -
  let ?s = "finalizeScanningSession sample_products
              (startScanningSession sample_products initial_state)"
  let ?p = "sample_product 2 [0x42] Reservado"
  let ?accept = "\<lambda>r. if r = \<lparr> patch_id = 2, patch_status = Extravio \<rparr>
                     then ResponseOk True else ResponseNotOk None"
  let ?throw = "\<lambda>r :: PatchRequest. RequestThrew"
  have h1: "?p \<in> set (missingProducts ?s)" by (simp add: missing_of_example)
  have h2: "distinct (map product_id (missingProducts ?s))"
    by (simp add: missing_of_example sample_product_def)
  have a: "?accept \<lparr> patch_id = product_id ?p, patch_status = Extravio \<rparr> = ResponseOk True"
    by (simp add: sample_product_def)
  have rm: "remove1 ?p (missingProducts ?s) = [sample_product 1 [0x41] Disponible]"
    by (simp add: missing_of_example sample_product_def)
  from markAsLost_removes_on_success_only [OF h1 h2, of ?accept True None] a
  have "missingProducts (handleMarkAsLost ?accept ?p ?s) = remove1 ?p (missingProducts ?s)"
    by blast
  with rm have c1: "missingProducts (handleMarkAsLost ?accept ?p ?s)
                      = [sample_product 1 [0x41] Disponible]" by simp
  from markAsLost_removes_on_success_only [OF h1 h2, of ?throw True None]
  have "handleMarkAsLost ?throw ?p ?s = ?s\<lparr> toasts := toasts ?s @ [NoSePudoActualizar] \<rparr>"
    by blast
  then have c2: "missingProducts (handleMarkAsLost ?throw ?p ?s)
       = [sample_product 1 [0x41] Disponible, sample_product 2 [0x42] Reservado]"
    by (simp add: missing_of_example)
  from h1 h2 c1 c2 show ?thesis by blast
qed

subsection \<open>The live counters\<close>

text \<open>
  Claim C8 says that the pending count is the expected total minus the length of the
  scan log, never clamped, and that the live counters start from the baseline counts.
  \<^verbatim>\<open>dynamicStats\<close> guards the subtraction with \<^verbatim>\<open>sessionStartCounts.total > 0\<close>
  and yields 0 otherwise: a session started on an empty snapshot has an expected total of
  0, and after one scan of an unknown IMEI the pending count is 0, not -1. And the live
  counters start from \<^verbatim>\<open>stats\<close>, the counts of the product list as it is now, not
  from \<^verbatim>\<open>sessionStartCounts\<close>: when an available product \<open>D\<close> has joined the list
  since the start, the live counter of the available products is 2 while the baseline
  count is 1 and nothing was scanned.
\<close>

theorem pending_is_zero_without_baseline_counterexample:
  "isScanning (scan [] 1 [0x5A] (startScanningSession [] initial_state))
   \<and> total (sessionStartCounts (scan [] 1 [0x5A] (startScanningSession [] initial_state))) = 0
   \<and> expectedTotal (dynamicStats [] (scan [] 1 [0x5A] (startScanningSession [] initial_state))) = 0
   \<and> length (scannedItems (scan [] 1 [0x5A] (startScanningSession [] initial_state))) = 1
   \<and> pendingToScan (dynamicStats [] (scan [] 1 [0x5A] (startScanningSession [] initial_state))) = 0
   \<and> pendingToScan (dynamicStats [] (scan [] 1 [0x5A] (startScanningSession [] initial_state)))
       \<noteq> int (expectedTotal (dynamicStats [] (scan [] 1 [0x5A] (startScanningSession [] initial_state))))
         - int (length (scannedItems (scan [] 1 [0x5A] (startScanningSession [] initial_state))))
   \<and> isScanning (startScanningSession sample_products initial_state)
   \<and> disponible (sessionStartCounts (startScanningSession sample_products initial_state)) = 1
   \<and> scannedItems (startScanningSession sample_products initial_state) = []
   \<and> dyn_disponible (dynamicStats (sample_product 4 [0x44] Disponible # sample_products)
        (startScanningSession sample_products initial_state)) = 2"
  by (simp add: scan_def handleScan_def trim_Z existingProduct_def startScanningSession_def Let_def
      alreadyScanned_def initial_state_def dynamicStats_def stats_total_def stats_disponible_def
      scannedProducts_def scannedIMEIs_def sample_products_def sample_product_def)

text \<open>
  Claim C8, amended. For every session started on a snapshot with unique IMEIs, scanned
  against that snapshot and read while the product list still is that snapshot, for each
  scannable status \<open>S\<close> the live counter is the baseline count of \<open>S\<close> minus the number
  of entries of the scan log whose bound record has status \<open>S\<close>; the pending count is
  the baseline total minus the length of the scan log, which may be negative, when the
  baseline total is positive, and 0 when the baseline total is 0.
\<close>

theorem live_counters_of_session:
  fixes ps :: "Product list" and inputs :: "(jsstring \<times> int) list" and s0 :: state
  defines "s \<equiv> scans ps inputs (startScanningSession ps s0)"
  assumes "distinct (map imei ps)"
  shows "dyn_disponible (dynamicStats ps s)
           = int (disponible (sessionStartCounts s))
             - int (length (filter (\<lambda>item. map_option status (product item) = Some Disponible)
                              (scannedItems s)))
       \<and> dyn_reservado (dynamicStats ps s)
           = int (reservado (sessionStartCounts s))
             - int (length (filter (\<lambda>item. map_option status (product item) = Some Reservado)
                              (scannedItems s)))
       \<and> dyn_tecnico_interno (dynamicStats ps s)
           = int (tecnico_interno (sessionStartCounts s))
             - int (length (filter (\<lambda>item. map_option status (product item) = Some Tecnico_interno)
                              (scannedItems s)))
       \<and> pendingToScan (dynamicStats ps s)
           = (if total (sessionStartCounts s) > 0
              then int (total (sessionStartCounts s)) - int (length (scannedItems s))
              else 0)"
proof -
  have inv: "session_inv ps s"
    unfolding s_def by (intro session_inv_scans session_inv_start)
  then have d: "distinct (map item_imei (scannedItems s))"
    and b: "list_all (\<lambda>item. product item = existingProduct ps (item_imei item)) (scannedItems s)"
    and c: "disponible (sessionStartCounts s) = stats_disponible ps"
      "reservado (sessionStartCounts s) = stats_reservado ps"
      "tecnico_interno (sessionStartCounts s) = stats_tecnico_interno ps"
    by (simp_all add: session_inv_def scannedIMEIs_def)
  note n = count_scanned_by_status [OF assms(2) d b]
  show ?thesis
    unfolding dynamicStats_def scannedProducts_def scannedIMEIs_def n c by simp
qed

text \<open>
  Both scannable products and one unknown IMEI are scanned: no available product is left
  to verify, and the pending count is below zero.
\<close>

theorem live_counters_of_session_witness:
  "distinct (map imei sample_products)
   \<and> dyn_disponible (dynamicStats sample_products
        (scans sample_products [([0x41], 1), ([0x42], 2), ([0x5A], 3)]
           (startScanningSession sample_products initial_state))) = 0
   \<and> pendingToScan (dynamicStats sample_products
        (scans sample_products [([0x41], 1), ([0x42], 2), ([0x5A], 3)]
           (startScanningSession sample_products initial_state))) = - 1"
proof -
  let ?s = "scans sample_products [([0x41], 1), ([0x42], 2), ([0x5A], 3)]
              (startScanningSession sample_products initial_state)"
  have h: "distinct (map imei sample_products)"
    by (simp add: sample_products_def sample_product_def)
  note r = live_counters_of_session [OF h, of "[([0x41], 1), ([0x42], 2), ([0x5A], 3)]" initial_state]
  have log: "scannedItems ?s =
      [\<lparr> item_imei = [0x5A], product = None, timestamp = 3, item_status = Not_found \<rparr>,
       \<lparr> item_imei = [0x42], product = Some (sample_product 2 [0x42] Reservado),
          timestamp = 2, item_status = Found \<rparr>,
       \<lparr> item_imei = [0x41], product = Some (sample_product 1 [0x41] Disponible),
          timestamp = 1, item_status = Found \<rparr>]"
    by (simp add: scan_def handleScan_def trim_def isWhiteSpace_def existingProduct_def
        sample_products_def sample_product_def startScanningSession_def Let_def
        alreadyScanned_def initial_state_def)
  have base: "sessionStartCounts ?s
                = \<lparr> disponible = 1, reservado = 1, tecnico_interno = 0, total = 2 \<rparr>"
    by (simp add: scan_def handleScan_def trim_def isWhiteSpace_def existingProduct_def
        sample_products_def sample_product_def startScanningSession_def Let_def
        alreadyScanned_def initial_state_def scannable_def)
  from r [THEN conjunct1]
  have c1: "dyn_disponible (dynamicStats sample_products ?s) = 0"
    unfolding log base by (simp add: sample_product_def)
  from r [THEN conjunct2, THEN conjunct2, THEN conjunct2]
  have c2: "pendingToScan (dynamicStats sample_products ?s) = - 1"
    unfolding log base by simp
  from h c1 c2 show ?thesis by blast
qed

end
